theory Spec2Isabelle
  imports Complex_Main
begin

section \<open>Living Portrait: scene editing and slot persistence\<close>

text \<open>
  A shallow embedding of \<^verbatim>\<open>living-portrait.jsx\<close>: the React component state, the
  IndexedDB helpers \<^verbatim>\<open>dbPut\<close>/\<^verbatim>\<open>dbGet\<close>, and the event handlers that edit the
  eye-socket list and save, load and import scenes.

  Modelling decisions.
  \<^item> JavaScript values are the datatype \<open>jsval\<close>. The component state is dynamically
    typed: after an import or a load any JSON value can sit in \<^verbatim>\<open>profiles\<close>,
    \<^verbatim>\<open>eyeSockets\<close> or \<^verbatim>\<open>locked\<close>, so these fields are \<open>jsval\<close>s.
  \<^item> Numbers are reals, with NaN as a value of its own: rounding is not modelled, and the
    infinities occur only as the quotient by zero that \<^verbatim>\<open>handleMove\<close> clamps at once.
  \<^item> An object is an association list from property names to values. Lookup and
    assignment are modelled; the enumeration order of properties is not observable by any
    modelled operation.
  \<^item> A thrown exception that nothing catches is the \<open>Inl\<close> branch of the result.
  \<^item> Each handler runs on a settled state: the \<^verbatim>\<open>async\<close> handlers are atomic, one
    operation at a time, each seeing the state the previous one left.
  \<^item> Whether an IndexedDB request succeeds is decided by the environment; it enters
    the model as a boolean argument of \<open>dbPut\<close> and \<open>dbGet\<close>.
  \<^item> The clock reading \<^verbatim>\<open>new Date().toISOString()\<close> and the outcome of
    \<^verbatim>\<open>JSON.parse\<close> are inputs of the handlers that use them.
\<close>

subsection \<open>JavaScript values\<close>

datatype jsval =
    JUndefined
  | JNull
  | JBool bool
  | JNum real
  | JNaN
  | JStr string
  | JArr "jsval list"
  | JObj "(string \<times> jsval) list"

datatype js_error = TypeError | DataError | StoreError

text \<open>Truthiness, as tested by \<^verbatim>\<open>if (v)\<close>, \<^verbatim>\<open>!v\<close> and \<^verbatim>\<open>v || w\<close>.\<close>

fun truthy :: "jsval \<Rightarrow> bool" where
  "truthy JUndefined = False"
| "truthy JNull = False"
| "truthy (JBool b) = b"
| "truthy (JNum r) = (r \<noteq> 0)"
| "truthy JNaN = False"
| "truthy (JStr s) = (s \<noteq> [])"
| "truthy (JArr xs) = True"
| "truthy (JObj kvs) = True"

definition js_or :: "jsval \<Rightarrow> jsval \<Rightarrow> jsval" where
  "js_or a b = (if truthy a then a else b)"

text \<open>Decimal rendering of a non-negative integer, as in \<^verbatim>\<open>`${slot}`\<close>.\<close>

definition digit_char :: "nat \<Rightarrow> char" where
  "digit_char d = ''0123456789'' ! (d mod 10)"

function string_of_nat :: "nat \<Rightarrow> string" where
  "string_of_nat n =
     (if n < 10 then [digit_char n] else string_of_nat (n div 10) @ [digit_char (n mod 10)])"
  by pat_completeness auto
termination
  by (relation "measure id") auto

declare string_of_nat.simps [simp del]

text \<open>
  Property read \<^verbatim>\<open>v[k]\<close> / \<^verbatim>\<open>v.k\<close>. Reading a property of \<^verbatim>\<open>null\<close> or
  \<^verbatim>\<open>undefined\<close> throws a TypeError; arrays and strings answer their indices and
  \<^verbatim>\<open>length\<close>; numbers and booleans have no own properties.
\<close>

definition index_of_key :: "string \<Rightarrow> nat \<Rightarrow> nat option" where
  "index_of_key k n = find (\<lambda>i. string_of_nat i = k) [0..<n]"

fun get_member :: "jsval \<Rightarrow> string \<Rightarrow> js_error + jsval" where
  "get_member JUndefined k = Inl TypeError"
| "get_member JNull k = Inl TypeError"
| "get_member (JBool b) k = Inr JUndefined"
| "get_member (JNum r) k = Inr JUndefined"
| "get_member JNaN k = Inr JUndefined"
| "get_member (JStr s) k =
     (case index_of_key k (length s) of
        Some i \<Rightarrow> Inr (JStr [s ! i])
      | None \<Rightarrow> if k = ''length'' then Inr (JNum (real (length s))) else Inr JUndefined)"
| "get_member (JArr xs) k =
     (case index_of_key k (length xs) of
        Some i \<Rightarrow> Inr (xs ! i)
      | None \<Rightarrow> if k = ''length'' then Inr (JNum (real (length xs))) else Inr JUndefined)"
| "get_member (JObj kvs) k =
     (case map_of kvs k of Some v \<Rightarrow> Inr v | None \<Rightarrow> Inr JUndefined)"

text \<open>Property read on a value already known to be truthy (so never a TypeError).\<close>

definition member :: "jsval \<Rightarrow> string \<Rightarrow> jsval" where
  "member v k = (case get_member v k of Inl e \<Rightarrow> JUndefined | Inr w \<Rightarrow> w)"

text \<open>Assignment \<^verbatim>\<open>o[k] = v\<close> on the property list of an object.\<close>

fun obj_set :: "string \<Rightarrow> jsval \<Rightarrow> (string \<times> jsval) list \<Rightarrow> (string \<times> jsval) list" where
  "obj_set k v [] = [(k, v)]"
| "obj_set k v ((k', v') # kvs) =
     (if k' = k then (k, v) # kvs else (k', v') # obj_set k v kvs)"

text \<open>
  Object spread \<^verbatim>\<open>{...v}\<close>: the own enumerable properties of \<open>v\<close>; none for
  \<^verbatim>\<open>null\<close>, \<^verbatim>\<open>undefined\<close>, numbers and booleans.
\<close>

fun spread_obj :: "jsval \<Rightarrow> (string \<times> jsval) list" where
  "spread_obj (JObj kvs) = kvs"
| "spread_obj (JArr xs) = zip (map string_of_nat [0..<length xs]) xs"
| "spread_obj (JStr s) = zip (map string_of_nat [0..<length s]) (map (\<lambda>c. JStr [c]) s)"
| "spread_obj v = []"

text \<open>
  Array spread \<^verbatim>\<open>[...v]\<close>: the elements of an iterable; a TypeError for anything
  that is not iterable.
\<close>

fun spread_arr :: "jsval \<Rightarrow> js_error + jsval list" where
  "spread_arr (JArr xs) = Inr xs"
| "spread_arr (JStr s) = Inr (map (\<lambda>c. JStr [c]) s)"
| "spread_arr v = Inl TypeError"

subsection \<open>The IndexedDB helpers\<close>

datatype store = IMG_STORE | PROFILE_STORE

type_synonym db = "store \<Rightarrow> jsval \<Rightarrow> jsval option"

text \<open>
  IndexedDB accepts numbers, strings and arrays of keys as keys; \<^verbatim>\<open>put\<close> and
  \<^verbatim>\<open>get\<close> throw a DataError for anything else, which rejects the promise.
\<close>

fun valid_key :: "jsval \<Rightarrow> bool" where
  "valid_key (JNum r) = True"
| "valid_key (JStr s) = True"
| "valid_key (JArr xs) = list_all valid_key xs"
| "valid_key v = False"

text \<open>
  \<^verbatim>\<open>dbPut(store, key, value)\<close>: resolves once the transaction completes (\<open>ok\<close>),
  rejects when opening the database or the transaction fails; a failed transaction
  writes nothing.
\<close>

definition dbPut :: "bool \<Rightarrow> store \<Rightarrow> jsval \<Rightarrow> jsval \<Rightarrow> db \<Rightarrow> js_error + db" where
  "dbPut ok s k v d =
     (if \<not> valid_key k then Inl DataError
      else if \<not> ok then Inl StoreError
      else Inr (d(s := (d s)(k \<mapsto> v))))"

text \<open>\<^verbatim>\<open>dbGet(store, key)\<close>: resolves with the stored value, \<^verbatim>\<open>undefined\<close> when absent.\<close>

definition dbGet :: "bool \<Rightarrow> store \<Rightarrow> jsval \<Rightarrow> db \<Rightarrow> js_error + jsval" where
  "dbGet ok s k d =
     (if \<not> valid_key k then Inl DataError
      else if \<not> ok then Inl StoreError
      else Inr (case d s k of None \<Rightarrow> JUndefined | Some v \<Rightarrow> v))"

subsection \<open>Component state\<close>

record state =
  imageData :: jsval
  eyeSockets :: jsval
  locked :: jsval
  glowIntensity :: real
  profiles :: jsval
  activeSlot :: "nat option"
  statusMsg :: string
  draggingIdx :: "nat option"
  hoverSocket :: "nat option"

text \<open>The state of a freshly mounted component (the \<^verbatim>\<open>useState\<close> initial values).\<close>

definition initial_state :: state where
  "initial_state =
     \<lparr>imageData = JNull, eyeSockets = JArr [], locked = JBool False, glowIntensity = 0,
      profiles = JObj [], activeSlot = None, statusMsg = [], draggingIdx = None,
      hoverSocket = None\<rparr>"

text \<open>\<^verbatim>\<open>flash(msg)\<close> shows a status message (its later clearing by a timer is not modelled).\<close>

definition flash :: "string \<Rightarrow> state \<Rightarrow> state" where
  "flash msg st = st\<lparr>statusMsg := msg\<rparr>"

subsection \<open>Saving and loading slots\<close>

definition img_key :: "nat \<Rightarrow> string" where
  "img_key slot = ''img_slot_'' @ string_of_nat slot"

text \<open>The object literal built by \<^verbatim>\<open>saveSlot\<close>; \<open>now\<close> is the clock's ISO string.\<close>

definition make_profile :: "nat \<Rightarrow> jsval list \<Rightarrow> jsval \<Rightarrow> string \<Rightarrow> jsval" where
  "make_profile slot pts lck now =
     JObj [(''slot'', JNum (real slot)),
           (''imageKey'', JStr (img_key slot)),
           (''eyeSockets'', JArr pts),
           (''locked'', lck),
           (''savedAt'', JStr now)]"

text \<open>
  \<^verbatim>\<open>saveSlot(slot)\<close>. \<open>okImg\<close> and \<open>okReg\<close> say whether the image write and the
  registry write succeed.
\<close>

definition saveSlot ::
  "bool \<Rightarrow> bool \<Rightarrow> string \<Rightarrow> nat \<Rightarrow> state \<Rightarrow> db \<Rightarrow> js_error + state \<times> db" where
  "saveSlot okImg okReg now slot st d =
     (if \<not> truthy (imageData st) then Inr (flash ''No image loaded'' st, d)
      else case spread_arr (eyeSockets st) of
        Inl e \<Rightarrow> Inl e
      | Inr pts \<Rightarrow>
          let profile = make_profile slot pts (locked st) now in
          (case dbPut okImg IMG_STORE (JStr (img_key slot)) (imageData st) d of
             Inl e \<Rightarrow> Inr (flash ''Save failed'' st, d)
           | Inr d1 \<Rightarrow>
               let updated = JObj (obj_set (string_of_nat slot) profile (spread_obj (profiles st))) in
               (case dbPut okReg PROFILE_STORE (JStr ''allProfiles'') updated d1 of
                  Inl e \<Rightarrow> Inr (flash ''Save failed'' st, d1)
                | Inr d2 \<Rightarrow>
                    Inr (flash (''Scene saved to slot '' @ string_of_nat slot)
                           (st\<lparr>profiles := updated, activeSlot := Some slot\<rparr>), d2))))"

text \<open>\<^verbatim>\<open>loadSlot(slot)\<close>. \<open>ok\<close> says whether the image read succeeds.\<close>

definition loadSlot :: "bool \<Rightarrow> nat \<Rightarrow> state \<Rightarrow> db \<Rightarrow> js_error + state \<times> db" where
  "loadSlot ok slot st d =
     (case get_member (profiles st) (string_of_nat slot) of
        Inl e \<Rightarrow> Inl e
      | Inr profile \<Rightarrow>
          if \<not> truthy profile
          then Inr (flash (''Slot '' @ string_of_nat slot @ '' is empty'') st, d)
          else (case dbGet ok IMG_STORE (member profile ''imageKey'') d of
                  Inl e \<Rightarrow> Inr (flash ''Load failed'' st, d)
                | Inr img \<Rightarrow>
                    if truthy img
                    then Inr (flash (''Loaded slot '' @ string_of_nat slot)
                                (st\<lparr>imageData := img,
                                    eyeSockets := js_or (member profile ''eyeSockets'') (JArr []),
                                    locked := js_or (member profile ''locked'') (JBool False),
                                    activeSlot := Some slot\<rparr>), d)
                    else Inr (flash (''Image missing for slot '' @ string_of_nat slot) st, d)))"

subsection \<open>Loading the registry on mount, uploading, locking\<close>

text \<open>The mount effect: read \<^verbatim>\<open>allProfiles\<close>; a failed read is only logged.\<close>

definition loadProfilesOnMount :: "bool \<Rightarrow> state \<Rightarrow> db \<Rightarrow> state" where
  "loadProfilesOnMount ok st d =
     (case dbGet ok PROFILE_STORE (JStr ''allProfiles'') d of
        Inl e \<Rightarrow> st
      | Inr saved \<Rightarrow> if truthy saved then st\<lparr>profiles := saved\<rparr> else st)"

text \<open>
  \<^verbatim>\<open>handleFileChange\<close>: \<open>file\<close> is the data URL the FileReader produces, \<open>None\<close>
  when no file was chosen.
\<close>

definition handleFileChange :: "string option \<Rightarrow> state \<Rightarrow> state" where
  "handleFileChange file st =
     (case file of
        None \<Rightarrow> st
      | Some url \<Rightarrow>
          st\<lparr>imageData := JStr url, eyeSockets := JArr [], locked := JBool False,
             activeSlot := None\<rparr>)"

text \<open>The lock button: \<^verbatim>\<open>setLocked((l) => !l)\<close>.\<close>

definition toggleLocked :: "state \<Rightarrow> state" where
  "toggleLocked st = st\<lparr>locked := JBool (\<not> truthy (locked st))\<rparr>"

subsection \<open>Placing, dragging and deleting eye sockets\<close>

record mouse_event =
  clientX :: real
  clientY :: real

text \<open>The fields of \<^verbatim>\<open>getBoundingClientRect()\<close> that the handlers read.\<close>

record dom_rect =
  rect_left :: real
  rect_top :: real
  rect_width :: real
  rect_height :: real

definition point :: "real \<Rightarrow> real \<Rightarrow> jsval" where
  "point x y = JObj [(''x'', JNum x), (''y'', JNum y)]"

text \<open>\<^verbatim>\<open>handleImageClick\<close>: a click on the portrait appends an eye socket.\<close>

definition handleImageClick :: "mouse_event \<Rightarrow> dom_rect \<Rightarrow> state \<Rightarrow> js_error + state" where
  "handleImageClick e rect st =
     (if truthy (locked st) \<or> \<not> truthy (imageData st) then Inr st
      else if draggingIdx st \<noteq> None then Inr st
      else
        let x = (clientX e - rect_left rect) / rect_width rect;
            y = (clientY e - rect_top rect) / rect_height rect
        in (case spread_arr (eyeSockets st) of
              Inl err \<Rightarrow> Inl err
            | Inr prev \<Rightarrow> Inr (st\<lparr>eyeSockets := JArr (prev @ [point x y])\<rparr>)))"

text \<open>
  \<^verbatim>\<open>Array.prototype.map\<close> and \<^verbatim>\<open>filter\<close> with the callback given the element
  and its index.
\<close>

definition js_map :: "(jsval \<Rightarrow> nat \<Rightarrow> jsval) \<Rightarrow> jsval list \<Rightarrow> jsval list" where
  "js_map f xs = map (\<lambda>(i, s). f s i) (zip [0..<length xs] xs)"

definition js_filter :: "(jsval \<Rightarrow> nat \<Rightarrow> bool) \<Rightarrow> jsval list \<Rightarrow> jsval list" where
  "js_filter f xs = map snd (filter (\<lambda>(i, s). f s i) (zip [0..<length xs] xs))"

text \<open>
  \<^verbatim>\<open>handleSocketMouseDown\<close>: unless the scene is locked, a drag of marker \<open>idx\<close>
  begins. The window listeners \<^verbatim>\<open>handleMove\<close> and \<^verbatim>\<open>handleUp\<close> are registered
  exactly while \<open>draggingIdx\<close> holds the index.
\<close>

definition handleSocketMouseDown :: "nat \<Rightarrow> state \<Rightarrow> state" where
  "handleSocketMouseDown idx st =
     (if truthy (locked st) then st else st\<lparr>draggingIdx := Some idx\<rparr>)"

definition clamp01 :: "real \<Rightarrow> real" where
  "clamp01 v = max 0 (min 1 v)"

text \<open>
  \<^verbatim>\<open>Math.max(0, Math.min(1, a / b))\<close> on finite \<open>a\<close> and \<open>b\<close>. A division by zero
  gives an infinity, which the clamp maps to 1 or to 0, or (for \<open>0 / 0\<close>) NaN, which
  \<^verbatim>\<open>Math.min\<close> and \<^verbatim>\<open>Math.max\<close> return as it is.
\<close>

definition clamp_quotient :: "real \<Rightarrow> real \<Rightarrow> jsval" where
  "clamp_quotient a b =
     (if b \<noteq> 0 then JNum (clamp01 (a / b))
      else if 0 < a then JNum 1
      else if a < 0 then JNum 0
      else JNaN)"

definition handleMove :: "nat \<Rightarrow> mouse_event \<Rightarrow> dom_rect \<Rightarrow> state \<Rightarrow> js_error + state" where
  "handleMove idx me rect st =
     (let x = clamp_quotient (clientX me - rect_left rect) (rect_width rect);
          y = clamp_quotient (clientY me - rect_top rect) (rect_height rect)
      in (case eyeSockets st of
            JArr prev \<Rightarrow>
              Inr (st\<lparr>eyeSockets :=
                       JArr (js_map (\<lambda>s i. if i = idx then JObj [(''x'', x), (''y'', y)] else s)
                               prev)\<rparr>)
          | _ \<Rightarrow> Inl TypeError))"

definition handleUp :: "state \<Rightarrow> state" where
  "handleUp st = st\<lparr>draggingIdx := None\<rparr>"

text \<open>A \<^verbatim>\<open>mousemove\<close> or \<^verbatim>\<open>mouseup\<close> on the window reaches the registered listeners.\<close>

definition window_mousemove :: "mouse_event \<Rightarrow> dom_rect \<Rightarrow> state \<Rightarrow> js_error + state" where
  "window_mousemove me rect st =
     (case draggingIdx st of None \<Rightarrow> Inr st | Some idx \<Rightarrow> handleMove idx me rect st)"

definition window_mouseup :: "state \<Rightarrow> state" where
  "window_mouseup st = (case draggingIdx st of None \<Rightarrow> st | Some idx \<Rightarrow> handleUp st)"

subsection \<open>Keyboard\<close>

record key_event =
  code :: string
  key :: string
  repeat :: bool
  shiftKey :: bool

text \<open>
  String comparison \<^verbatim>\<open>a <= b\<close>: lexicographic on character codes (the names of
  keys are ASCII).
\<close>

fun str_le :: "string \<Rightarrow> string \<Rightarrow> bool" where
  "str_le [] bs = True"
| "str_le (a # as) [] = False"
| "str_le (a # as) (b # bs) =
     (if a = b then str_le as bs else (of_char a :: nat) < of_char b)"

definition slot_key :: "string \<Rightarrow> bool" where
  "slot_key k = (str_le ''1'' k \<and> str_le k ''6'')"

definition is_digit :: "char \<Rightarrow> bool" where
  "is_digit c = (48 \<le> (of_char c :: nat) \<and> (of_char c :: nat) \<le> 57)"

text \<open>
  \<^verbatim>\<open>parseInt\<close> on a string that starts with a digit (every string that passes
  \<open>slot_key\<close> does): the value of the leading digits.
\<close>

definition parseInt :: "string \<Rightarrow> nat" where
  "parseInt s = foldl (\<lambda>a c. 10 * a + (of_char c - 48)) 0 (takeWhile is_digit s)"

text \<open>
  \<^verbatim>\<open>handleKeyDown\<close>. The three tests run one after the other on the values of the
  render the handler closes over; for the event of a real key at most one of them holds.
  A rejected \<^verbatim>\<open>saveSlot\<close>/\<^verbatim>\<open>loadSlot\<close> promise is not awaited: its exception is lost.
  The ref \<^verbatim>\<open>spaceHeld\<close> is written here and read nowhere; it is left out.
\<close>

definition handleKeyDown ::
  "bool \<Rightarrow> bool \<Rightarrow> bool \<Rightarrow> string \<Rightarrow> key_event \<Rightarrow> state \<Rightarrow> db \<Rightarrow> js_error + state \<times> db" where
  "handleKeyDown okImg okReg okGet now e st d =
     (let st1 = (if code e = ''Space'' \<and> \<not> repeat e then st\<lparr>glowIntensity := 1\<rparr> else st);
          r2 = (if slot_key (key e) \<and> \<not> repeat e
                then (let slot = parseInt (key e) in
                      case (if shiftKey e then saveSlot okImg okReg now slot st1 d
                            else loadSlot okGet slot st1 d) of
                        Inl err \<Rightarrow> (st1, d)
                      | Inr r \<Rightarrow> r)
                else (st1, d))
      in if (code e = ''Backspace'' \<or> code e = ''Delete'') \<and> hoverSocket st \<noteq> None
            \<and> \<not> truthy (locked st)
         then (case eyeSockets (fst r2) of
                 JArr prev \<Rightarrow>
                   Inr ((fst r2)\<lparr>eyeSockets :=
                                   JArr (js_filter (\<lambda>s i. Some i \<noteq> hoverSocket st) prev),
                                 hoverSocket := None\<rparr>, snd r2)
               | _ \<Rightarrow> Inl TypeError)
         else Inr r2)"

definition handleKeyUp :: "key_event \<Rightarrow> state \<Rightarrow> state" where
  "handleKeyUp e st = (if code e = ''Space'' then st\<lparr>glowIntensity := 0\<rparr> else st)"

subsection \<open>Import\<close>

text \<open>
  What \<^verbatim>\<open>importProfiles\<close> gets from the file input: no file, a text on which
  \<^verbatim>\<open>JSON.parse\<close> throws, or a text that parses to a value.
\<close>

datatype file_input = NoFile | BadJson | Json jsval

definition importProfiles :: "bool \<Rightarrow> file_input \<Rightarrow> state \<Rightarrow> db \<Rightarrow> state \<times> db" where
  "importProfiles ok file st d =
     (case file of
        NoFile \<Rightarrow> (st, d)
      | BadJson \<Rightarrow> (flash ''Invalid profile file'' st, d)
      | Json data \<Rightarrow>
          (case dbPut ok PROFILE_STORE (JStr ''allProfiles'') data d of
             Inl err \<Rightarrow> (flash ''Invalid profile file'' st, d)
           | Inr d1 \<Rightarrow> (flash ''Profiles imported'' (st\<lparr>profiles := data\<rparr>), d1)))"

subsection \<open>The registry of the data model, and example scenes\<close>

text \<open>
  The persisted registry of the data model: an object whose entries are profile
  objects, each with a string \<^verbatim>\<open>imageKey\<close>.
\<close>

fun is_string :: "jsval \<Rightarrow> bool" where
  "is_string (JStr s) = True"
| "is_string v = False"

fun profile_shaped :: "jsval \<Rightarrow> bool" where
  "profile_shaped (JObj fs) =
     (case map_of fs ''imageKey'' of Some v \<Rightarrow> is_string v | None \<Rightarrow> False)"
| "profile_shaped v = False"

definition registry_shaped :: "jsval \<Rightarrow> bool" where
  "registry_shaped r =
     (case r of JObj kvs \<Rightarrow> list_all (\<lambda>(k, p). profile_shaped p) kvs | _ \<Rightarrow> False)"

definition demo_image :: jsval where
  "demo_image = JStr ''data:image/png;base64,AAAA''"

text \<open>A portrait was just uploaded: no eye sockets yet, unlocked.\<close>

definition fresh_scene :: state where
  "fresh_scene = handleFileChange (Some ''data:image/png;base64,AAAA'') initial_state"

text \<open>The scene of the README: two eye sockets, locked.\<close>

definition demo_scene :: state where
  "demo_scene =
     \<lparr>imageData = demo_image,
      eyeSockets = JArr [point 0.35 0.42, point 0.65 0.42],
      locked = JBool True, glowIntensity = 0, profiles = JObj [], activeSlot = None,
      statusMsg = [], draggingIdx = None, hoverSocket = None\<rparr>"

definition empty_db :: db where
  "empty_db = (\<lambda>s k. None)"

definition demo_now :: string where
  "demo_now = ''2025-02-05T12:00:00.000Z''"

text \<open>
  A click one half pixel left of the portrait's left edge: the layout centres the
  portrait, so the edge can lie at a fractional position, while the event carries whole
  pixels.
\<close>

definition edge_click :: mouse_event where
  "edge_click = \<lparr>clientX = 153, clientY = 300\<rparr>"

definition demo_rect :: dom_rect where
  "demo_rect = \<lparr>rect_left = 153.5, rect_top = 100, rect_width = 694, rect_height = 500\<rparr>"

text \<open>The registry entry of the README.\<close>

definition demo_entry :: jsval where
  "demo_entry =
     JObj [(''slot'', JNum 1),
           (''imageKey'', JStr ''img_slot_1''),
           (''eyeSockets'', JArr [point 0.35 0.42, point 0.65 0.42]),
           (''locked'', JBool True),
           (''savedAt'', JStr ''2025-02-05T12:00:00.000Z'')]"

definition delete_key :: key_event where
  "delete_key = \<lparr>code = ''Delete'', key = ''Delete'', repeat = False, shiftKey = False\<rparr>"

text \<open>A key-down event whose \<^verbatim>\<open>key\<close> is the string 10, with Shift held.\<close>

definition key10_event :: key_event where
  "key10_event = \<lparr>code = ''Unidentified'', key = ''10'', repeat = False, shiftKey = True\<rparr>"

text \<open>The locked scene with the pointer over the first marker.\<close>

definition hovered_scene :: state where
  "hovered_scene = demo_scene\<lparr>hoverSocket := Some 0\<rparr>"

text \<open>A registry whose slot 2 names an image that the image store does not hold.\<close>

definition dangling_scene :: state where
  "dangling_scene = fresh_scene\<lparr>profiles := JObj [(''2'', demo_entry)]\<rparr>"

text \<open>
  The document \<^verbatim>\<open>{"3": {"slot": 3}}\<close> was imported: slot 3 holds a profile without
  an \<^verbatim>\<open>imageKey\<close>, and the image store is empty.
\<close>

definition keyless_doc :: jsval where
  "keyless_doc = JObj [(''3'', JObj [(''slot'', JNum 3)])]"

definition keyless_scene :: state where
  "keyless_scene = fst (importProfiles True (Json keyless_doc) fresh_scene empty_db)"

definition keyless_db :: db where
  "keyless_db = snd (importProfiles True (Json keyless_doc) fresh_scene empty_db)"

text \<open>An imported registry whose slot 4 has no point list and a null lock flag.\<close>

definition sparse_scene :: state where
  "sparse_scene =
     fresh_scene\<lparr>profiles :=
       JObj [(''4'', JObj [(''slot'', JNum 4), (''imageKey'', JStr ''img_slot_4''),
                          (''locked'', JNull)])]\<rparr>"

definition demo_db :: db where
  "demo_db = empty_db(IMG_STORE := (empty_db IMG_STORE)(JStr ''img_slot_4'' \<mapsto> demo_image))"

text \<open>What saving the README scene to slot 1 of an empty database leaves.\<close>

definition saved_scene :: state where
  "saved_scene =
     flash ''Scene saved to slot 1''
       (demo_scene\<lparr>profiles := JObj [(''1'', demo_entry)], activeSlot := Some 1\<rparr>)"

definition saved_db :: db where
  "saved_db =
     empty_db(IMG_STORE := (empty_db IMG_STORE)(JStr ''img_slot_1'' \<mapsto> demo_image),
              PROFILE_STORE := (empty_db PROFILE_STORE)(JStr ''allProfiles'' \<mapsto>
                                 JObj [(''1'', demo_entry)]))"

text \<open>After that save, another portrait is uploaded.\<close>

definition other_scene :: state where
  "other_scene = handleFileChange (Some ''data:image/png;base64,BBBB'') saved_scene"

section \<open>Properties\<close>

subsection \<open>Auxiliary facts\<close>

lemma string_of_nat_digit: "n < 10 \<Longrightarrow> string_of_nat n = [digit_char n]"
  by (simp add: string_of_nat.simps)

lemma string_of_nat_Suc_0 [simp]: "string_of_nat (Suc 0) = ''1''"
  by (simp add: string_of_nat_digit digit_char_def)

lemma string_of_nat_2 [simp]: "string_of_nat 2 = ''2''"
  by (simp add: string_of_nat_digit digit_char_def)

lemma string_of_nat_3 [simp]: "string_of_nat 3 = ''3''"
  by (simp add: string_of_nat_digit digit_char_def)

lemma string_of_nat_4 [simp]: "string_of_nat 4 = ''4''"
  by (simp add: string_of_nat_digit digit_char_def)

lemma string_of_nat_7 [simp]: "string_of_nat 7 = ''7''"
  by (simp add: string_of_nat_digit digit_char_def)

lemma string_of_nat_10 [simp]: "string_of_nat 10 = ''10''"
  by (simp add: string_of_nat.simps [of 10] digit_char_def)

lemma get_member_not_null:
  "r \<noteq> JNull \<Longrightarrow> r \<noteq> JUndefined \<Longrightarrow> get_member r k = Inr (member r k)"
  by (cases r) (simp_all add: member_def split: option.splits)

lemma map_of_obj_set_same: "map_of (obj_set k v kvs) k = Some v"
  by (induction kvs) auto

lemma map_of_obj_set_other: "k' \<noteq> k \<Longrightarrow> map_of (obj_set k v kvs) k' = map_of kvs k'"
  by (induction kvs) auto

lemma js_map_replace: "js_map (\<lambda>s i. if i = idx then p else s) xs = xs[idx := p]"
  by (rule nth_equalityI) (auto simp: js_map_def nth_list_update)

lemma clamp01_range: "0 \<le> clamp01 v \<and> clamp01 v \<le> 1"
  by (simp add: clamp01_def)

lemma saveSlot_image_write_fails:
  assumes "truthy (imageData st)" and "spread_arr (eyeSockets st) = Inr pts"
  shows "saveSlot False okReg now slot st d = Inr (flash ''Save failed'' st, d)"
  using assms by (simp add: saveSlot_def dbPut_def)

lemma saveSlot_success:
  assumes "truthy (imageData st)" and "spread_arr (eyeSockets st) = Inr pts"
  shows "saveSlot True True now slot st d =
     Inr (flash (''Scene saved to slot '' @ string_of_nat slot)
            (st\<lparr>profiles := JObj (obj_set (string_of_nat slot)
                                    (make_profile slot pts (locked st) now)
                                    (spread_obj (profiles st))),
                activeSlot := Some slot\<rparr>),
          d(IMG_STORE := (d IMG_STORE)(JStr (img_key slot) \<mapsto> imageData st),
            PROFILE_STORE := (d PROFILE_STORE)(JStr ''allProfiles'' \<mapsto>
               JObj (obj_set (string_of_nat slot) (make_profile slot pts (locked st) now)
                      (spread_obj (profiles st))))))"
  using assms by (simp add: saveSlot_def dbPut_def Let_def)

lemma saveSlot_registry_write:
  "saveSlot okImg okReg now slot st d = Inr (st', d') \<Longrightarrow>
   d' PROFILE_STORE \<noteq> d PROFILE_STORE \<Longrightarrow>
     okImg \<and> d' IMG_STORE (JStr (img_key slot)) = Some (imageData st)"
  by (auto simp: saveSlot_def dbPut_def Let_def flash_def split: if_splits sum.splits)

lemma demo_save:
  "saveSlot True True demo_now 1 demo_scene empty_db = Inr (saved_scene, saved_db)"
  by (simp add: saveSlot_def dbPut_def Let_def demo_scene_def demo_image_def demo_entry_def
      make_profile_def img_key_def demo_now_def saved_scene_def saved_db_def)

text \<open>Only non-empty payloads are ever written to the image store.\<close>

lemma importProfiles_keeps_images:
  "importProfiles ok file st d = (st', d') \<Longrightarrow> d' IMG_STORE = d IMG_STORE"
  by (auto simp: importProfiles_def dbPut_def split: file_input.splits if_splits)

lemma saveSlot_keeps_images_nonempty:
  assumes "saveSlot okImg okReg now slot st d = Inr (st', d')"
    and "\<forall>k v. d IMG_STORE k = Some v \<longrightarrow> truthy v"
  shows "\<forall>k v. d' IMG_STORE k = Some v \<longrightarrow> truthy v"
  using assms
  by (auto simp: saveSlot_def dbPut_def Let_def flash_def split: if_splits sum.splits)

text \<open>\<^verbatim>\<open>loadSlot\<close> when the registry is an object.\<close>

lemma loadSlot_obj:
  "profiles st = JObj kvs \<Longrightarrow>
   loadSlot ok slot st d =
     (case map_of kvs (string_of_nat slot) of
        None \<Rightarrow> Inr (flash (''Slot '' @ string_of_nat slot @ '' is empty'') st, d)
      | Some profile \<Rightarrow>
          if \<not> truthy profile
          then Inr (flash (''Slot '' @ string_of_nat slot @ '' is empty'') st, d)
          else (case dbGet ok IMG_STORE (member profile ''imageKey'') d of
                  Inl e \<Rightarrow> Inr (flash ''Load failed'' st, d)
                | Inr img \<Rightarrow>
                    if truthy img
                    then Inr (flash (''Loaded slot '' @ string_of_nat slot)
                                (st\<lparr>imageData := img,
                                    eyeSockets := js_or (member profile ''eyeSockets'') (JArr []),
                                    locked := js_or (member profile ''locked'') (JBool False),
                                    activeSlot := Some slot\<rparr>), d)
                    else Inr (flash (''Image missing for slot '' @ string_of_nat slot) st, d)))"
  by (simp add: loadSlot_def split: option.splits)

text \<open>
  \<^verbatim>\<open>loadSlot\<close> on a registry of the data model: the slot's key is absent, or it
  holds a profile object with a string \<^verbatim>\<open>imageKey\<close>.
\<close>

lemma loadSlot_registry_shaped:
  assumes "registry_shaped (profiles st)"
  shows "member (profiles st) (string_of_nat slot) = JUndefined \<and>
           loadSlot ok slot st d
             = Inr (flash (''Slot '' @ string_of_nat slot @ '' is empty'') st, d)
         \<or> (\<exists>fs ik. member (profiles st) (string_of_nat slot) = JObj fs \<and>
               member (JObj fs) ''imageKey'' = JStr ik \<and>
               loadSlot ok slot st d =
                 (if \<not> ok then Inr (flash ''Load failed'' st, d)
                  else case d IMG_STORE (JStr ik) of
                    None \<Rightarrow> Inr (flash (''Image missing for slot '' @ string_of_nat slot) st, d)
                  | Some img \<Rightarrow>
                     if truthy img
                     then Inr (flash (''Loaded slot '' @ string_of_nat slot)
                                (st\<lparr>imageData := img,
                                    eyeSockets := js_or (member (JObj fs) ''eyeSockets'') (JArr []),
                                    locked := js_or (member (JObj fs) ''locked'') (JBool False),
                                    activeSlot := Some slot\<rparr>), d)
                     else Inr (flash (''Image missing for slot '' @ string_of_nat slot) st, d)))"
proof -
  from assms obtain kvs where kvs: "profiles st = JObj kvs"
    and all: "list_all (\<lambda>(k, p). profile_shaped p) kvs"
    by (auto simp: registry_shaped_def split: jsval.splits)
  show ?thesis
  proof (cases "map_of kvs (string_of_nat slot)")
    case None
    then show ?thesis
      by (simp add: loadSlot_obj [OF kvs] kvs member_def)
  next
    case (Some p)
    then have "(string_of_nat slot, p) \<in> set kvs"
      by (rule map_of_SomeD)
    with all have "profile_shaped p"
      by (auto simp: list_all_iff)
    then obtain fs v where p: "p = JObj fs"
      and v: "map_of fs ''imageKey'' = Some v" "is_string v"
      by (cases p) (auto split: option.splits)
    from v(2) obtain ik where "v = JStr ik"
      by (cases v) auto
    with v(1) have ik: "map_of fs ''imageKey'' = Some (JStr ik)"
      by simp
    have "member (profiles st) (string_of_nat slot) = JObj fs"
      using Some p by (simp add: kvs member_def)
    moreover have "member (JObj fs) ''imageKey'' = JStr ik"
      using ik by (simp add: member_def)
    ultimately show ?thesis
      using Some p
      by (auto simp: loadSlot_obj [OF kvs] dbGet_def split: option.splits)
  qed
qed

subsection \<open>Placing and dragging points\<close>

text \<open>
  A drag stores the clamped quotient: on a portrait of non-zero width and height,
  \<^verbatim>\<open>handleMove\<close> replaces the point at the dragged index by one whose coordinates
  lie in \<open>[0,1]\<close>.
\<close>

lemma handleMove_stores_clamped:
  assumes "eyeSockets st = JArr prev"
    and "rect_width rect \<noteq> 0" and "rect_height rect \<noteq> 0"
  shows "\<exists>x y. handleMove idx me rect st
                 = Inr (st\<lparr>eyeSockets := JArr (prev[idx := point x y])\<rparr>) \<and>
           x = clamp01 ((clientX me - rect_left rect) / rect_width rect) \<and>
           y = clamp01 ((clientY me - rect_top rect) / rect_height rect) \<and>
           0 \<le> x \<and> x \<le> 1 \<and> 0 \<le> y \<and> y \<le> 1"
  using assms
  by (simp add: handleMove_def clamp_quotient_def point_def js_map_replace Let_def
      clamp01_range)

text \<open>
  On a portrait of zero width the quotient is an infinity or NaN: the stored \<open>x\<close> is
  1 right of the edge, 0 left of it, and NaN exactly on it.
\<close>

lemma clamp_quotient_zero:
  "clamp_quotient a 0 = (if 0 < a then JNum 1 else if a < 0 then JNum 0 else JNaN)"
  by (simp add: clamp_quotient_def)

text \<open>A click stores the quotient as it is.\<close>

lemma handleImageClick_stores_raw:
  assumes "\<not> truthy (locked st)" and "truthy (imageData st)" and "draggingIdx st = None"
    and "eyeSockets st = JArr prev"
  shows "handleImageClick e rect st =
     Inr (st\<lparr>eyeSockets :=
              JArr (prev @ [point ((clientX e - rect_left rect) / rect_width rect)
                                  ((clientY e - rect_top rect) / rect_height rect)])\<rparr>)"
  using assms by (simp add: handleImageClick_def Let_def)

text \<open>
  C1. The claim: every placement and every drag stores the input clamped to \<open>[0,1]\<close>.
  The drag path clamps (\<open>handleMove_stores_clamped\<close>); the click path does not. For a
  click half a pixel left of the portrait's edge, \<^verbatim>\<open>handleImageClick\<close> stores the
  negative \<open>x = -1/1388\<close>, where clamping would store \<open>0\<close>.
\<close>

theorem handleImageClick_not_clamped:
  "handleImageClick edge_click demo_rect fresh_scene
     = Inr (fresh_scene\<lparr>eyeSockets := JArr [point (- 1 / 1388) (2 / 5)]\<rparr>) \<and>
   (- 1 / 1388 :: real) < 0 \<and> clamp01 (- 1 / 1388) = 0"
  by (simp add: handleImageClick_def fresh_scene_def handleFileChange_def initial_state_def
      edge_click_def demo_rect_def Let_def clamp01_def)

subsection \<open>Saving\<close>

text \<open>
  C6. In \<^verbatim>\<open>saveSlot\<close> the registry is written only after the image write has
  succeeded. When the image write fails, the save stops with ``Save failed'': the
  database and the in-memory registry are exactly as before, so no registry entry
  pointing at a missing image is created. And whenever a save has changed the stored
  registry, the image write succeeded and the image is in the image store under the
  slot's key.
\<close>

theorem saveSlot_registry_only_after_image:
  "(truthy (imageData st) \<and> spread_arr (eyeSockets st) = Inr pts \<longrightarrow>
      saveSlot False okReg now slot st d = Inr (flash ''Save failed'' st, d)) \<and>
   (\<forall>okImg st' d'. saveSlot okImg okReg now slot st d = Inr (st', d') \<and>
        d' PROFILE_STORE \<noteq> d PROFILE_STORE \<longrightarrow>
        okImg \<and> d' IMG_STORE (JStr (img_key slot)) = Some (imageData st))"
  using saveSlot_image_write_fails saveSlot_registry_write by blast

theorem saveSlot_registry_only_after_image_witness:
  "truthy (imageData demo_scene) \<and>
   spread_arr (eyeSockets demo_scene) = Inr [point 0.35 0.42, point 0.65 0.42] \<and>
   saveSlot False True demo_now 1 demo_scene empty_db
     = Inr (flash ''Save failed'' demo_scene, empty_db) \<and>
   saveSlot True True demo_now 1 demo_scene empty_db = Inr (saved_scene, saved_db) \<and>
   saved_db PROFILE_STORE \<noteq> empty_db PROFILE_STORE \<and>
   saved_db IMG_STORE (JStr (img_key 1)) = Some (imageData demo_scene)"
proof -
  have h1: "truthy (imageData demo_scene)"
    by (simp add: demo_scene_def demo_image_def)
  have h2: "spread_arr (eyeSockets demo_scene) = Inr [point 0.35 0.42, point 0.65 0.42]"
    by (simp add: demo_scene_def)
  have h3: "saved_db PROFILE_STORE \<noteq> empty_db PROFILE_STORE"
    by (simp add: saved_db_def empty_db_def)
  show ?thesis
    using h1 h2 h3 demo_save
      saveSlot_registry_only_after_image
        [of demo_scene "[point 0.35 0.42, point 0.65 0.42]" True demo_now 1 empty_db]
    by blast
qed

text \<open>
  C4, amended. \<^verbatim>\<open>saveSlot\<close> reports ``No image loaded'' whenever the scene has no
  image, and then writes nothing and changes nothing but the status message. It has no
  check of the slot number and no invalid-slot error: for a scene with an image and a
  point list, and with both store writes succeeding, the save succeeds for every slot
  number, inside or outside 1..6; it stores the image under \<^verbatim>\<open>img_slot_\<close> followed by
  the slot number and the profile under the slot number, and makes the slot the active
  one.
\<close>

theorem saveSlot_no_image_no_slot_check:
  "(\<not> truthy (imageData st) \<longrightarrow>
      saveSlot okImg okReg now slot st d = Inr (flash ''No image loaded'' st, d)) \<and>
   (truthy (imageData st) \<and> eyeSockets st = JArr pts \<longrightarrow>
      (\<exists>st' d'. saveSlot True True now slot st d = Inr (st', d') \<and>
         statusMsg st' = ''Scene saved to slot '' @ string_of_nat slot \<and>
         activeSlot st' = Some slot \<and>
         d' IMG_STORE (JStr (img_key slot)) = Some (imageData st) \<and>
         d' PROFILE_STORE (JStr ''allProfiles'') = Some (profiles st') \<and>
         member (profiles st') (string_of_nat slot)
           = make_profile slot pts (locked st) now))"
proof (intro conjI impI)
  assume "\<not> truthy (imageData st)"
  then show "saveSlot okImg okReg now slot st d = Inr (flash ''No image loaded'' st, d)"
    by (simp add: saveSlot_def)
next
  assume "truthy (imageData st) \<and> eyeSockets st = JArr pts"
  then have "truthy (imageData st)" and "spread_arr (eyeSockets st) = Inr pts"
    by simp_all
  then show "\<exists>st' d'. saveSlot True True now slot st d = Inr (st', d') \<and>
         statusMsg st' = ''Scene saved to slot '' @ string_of_nat slot \<and>
         activeSlot st' = Some slot \<and>
         d' IMG_STORE (JStr (img_key slot)) = Some (imageData st) \<and>
         d' PROFILE_STORE (JStr ''allProfiles'') = Some (profiles st') \<and>
         member (profiles st') (string_of_nat slot)
           = make_profile slot pts (locked st) now"
    by (simp add: saveSlot_success flash_def member_def map_of_obj_set_same)
qed

theorem saveSlot_no_image_no_slot_check_witness:
  "\<not> truthy (imageData initial_state) \<and>
   saveSlot True True demo_now 3 initial_state empty_db
     = Inr (flash ''No image loaded'' initial_state, empty_db) \<and>
   truthy (imageData demo_scene) \<and>
   eyeSockets demo_scene = JArr [point 0.35 0.42, point 0.65 0.42] \<and>
   (\<exists>st' d'. saveSlot True True demo_now 10 demo_scene empty_db = Inr (st', d') \<and>
      statusMsg st' = ''Scene saved to slot 10'' \<and> activeSlot st' = Some 10 \<and>
      d' IMG_STORE (JStr ''img_slot_10'') = Some demo_image \<and>
      d' PROFILE_STORE (JStr ''allProfiles'') = Some (profiles st') \<and>
      member (profiles st') ''10''
        = make_profile 10 [point 0.35 0.42, point 0.65 0.42] (JBool True) demo_now)"
proof -
  have h: "\<not> truthy (imageData initial_state)"
    by (simp add: initial_state_def)
  have i: "truthy (imageData demo_scene)" "imageData demo_scene = demo_image"
    "locked demo_scene = JBool True"
    by (simp_all add: demo_scene_def demo_image_def)
  have p: "eyeSockets demo_scene = JArr [point 0.35 0.42, point 0.65 0.42]"
    by (simp add: demo_scene_def)
  have a: "saveSlot True True demo_now 3 initial_state empty_db
             = Inr (flash ''No image loaded'' initial_state, empty_db)"
    using h saveSlot_no_image_no_slot_check
              [of initial_state True True demo_now 3 empty_db "[]"]
    by blast
  have b: "\<exists>st' d'. saveSlot True True demo_now 10 demo_scene empty_db = Inr (st', d') \<and>
      statusMsg st' = ''Scene saved to slot 10'' \<and> activeSlot st' = Some 10 \<and>
      d' IMG_STORE (JStr ''img_slot_10'') = Some demo_image \<and>
      d' PROFILE_STORE (JStr ''allProfiles'') = Some (profiles st') \<and>
      member (profiles st') ''10''
        = make_profile 10 [point 0.35 0.42, point 0.65 0.42] (JBool True) demo_now"
    using i p saveSlot_no_image_no_slot_check
                [of demo_scene True True demo_now 10 empty_db
                    "[point 0.35 0.42, point 0.65 0.42]"]
    by (simp add: img_key_def)
  show ?thesis
    using h i(1) p a b by blast
qed

text \<open>
  C4 as stated fails: a key-down event with key 10 and Shift passes the handler's
  comparison \<^verbatim>\<open>e.key >= "1" && e.key <= "6"\<close> and calls \<^verbatim>\<open>saveSlot(10)\<close>, which is
  not rejected: on the README scene it writes the image under \<^verbatim>\<open>img_slot_10\<close> and a
  registry entry under key 10.
\<close>

theorem saveSlot_accepts_slot_10:
  "slot_key (key key10_event) \<and> parseInt (key key10_event) = 10 \<and>
   handleKeyDown True True True demo_now key10_event demo_scene empty_db
     = saveSlot True True demo_now 10 demo_scene empty_db \<and>
   saveSlot True True demo_now 10 demo_scene empty_db
     = Inr (flash ''Scene saved to slot 10''
              (demo_scene\<lparr>profiles :=
                  JObj [(''10'', make_profile 10 [point 0.35 0.42, point 0.65 0.42]
                                   (JBool True) demo_now)],
                activeSlot := Some 10\<rparr>),
            empty_db(IMG_STORE := (empty_db IMG_STORE)(JStr ''img_slot_10'' \<mapsto> demo_image),
                     PROFILE_STORE := (empty_db PROFILE_STORE)(JStr ''allProfiles'' \<mapsto>
                         JObj [(''10'', make_profile 10 [point 0.35 0.42, point 0.65 0.42]
                                          (JBool True) demo_now)])))"
proof -
  have k: "slot_key (key key10_event)" "parseInt (key key10_event) = 10"
    by (simp_all add: key10_event_def slot_key_def parseInt_def is_digit_def)
  have s: "saveSlot True True demo_now 10 demo_scene empty_db
     = Inr (flash ''Scene saved to slot 10''
              (demo_scene\<lparr>profiles :=
                  JObj [(''10'', make_profile 10 [point 0.35 0.42, point 0.65 0.42]
                                   (JBool True) demo_now)],
                activeSlot := Some 10\<rparr>),
            empty_db(IMG_STORE := (empty_db IMG_STORE)(JStr ''img_slot_10'' \<mapsto> demo_image),
                     PROFILE_STORE := (empty_db PROFILE_STORE)(JStr ''allProfiles'' \<mapsto>
                         JObj [(''10'', make_profile 10 [point 0.35 0.42, point 0.65 0.42]
                                          (JBool True) demo_now)])))"
    by (simp add: saveSlot_def dbPut_def Let_def demo_scene_def demo_image_def img_key_def)
  have "handleKeyDown True True True demo_now key10_event demo_scene empty_db
     = saveSlot True True demo_now 10 demo_scene empty_db"
    using k by (simp add: handleKeyDown_def s) (simp add: key10_event_def)
  with k s show ?thesis
    by simp
qed

text \<open>
  C9, amended. The registry entry a successful save writes for its slot, in memory
  and in the store, is the object with the fields \<^verbatim>\<open>slot\<close> (the slot number),
  \<^verbatim>\<open>imageKey\<close> (\<^verbatim>\<open>img_slot_\<close> followed by the slot number), \<^verbatim>\<open>eyeSockets\<close> (the
  scene's point list at the time of the save), \<^verbatim>\<open>locked\<close> (the scene's lock flag) and
  \<^verbatim>\<open>savedAt\<close> (the clock's ISO string). The point list is stored under the name
  \<^verbatim>\<open>eyeSockets\<close>, not \<^verbatim>\<open>points\<close>.
\<close>

theorem saved_entry_shape:
  assumes "truthy (imageData st)" and "eyeSockets st = JArr pts"
  shows "\<exists>st' d'. saveSlot True True now slot st d = Inr (st', d') \<and>
           d' PROFILE_STORE (JStr ''allProfiles'') = Some (profiles st') \<and>
           member (profiles st') (string_of_nat slot) =
             JObj [(''slot'', JNum (real slot)),
                   (''imageKey'', JStr (''img_slot_'' @ string_of_nat slot)),
                   (''eyeSockets'', JArr pts),
                   (''locked'', locked st),
                   (''savedAt'', JStr now)]"
  using assms
  by (simp add: saveSlot_success flash_def member_def map_of_obj_set_same make_profile_def
      img_key_def)

theorem saved_entry_shape_witness:
  "truthy (imageData demo_scene) \<and>
   eyeSockets demo_scene = JArr [point 0.35 0.42, point 0.65 0.42] \<and>
   (\<exists>st' d'. saveSlot True True demo_now 1 demo_scene empty_db = Inr (st', d') \<and>
           d' PROFILE_STORE (JStr ''allProfiles'') = Some (profiles st') \<and>
           member (profiles st') ''1'' = demo_entry)"
proof -
  have h1: "truthy (imageData demo_scene)"
    by (simp add: demo_scene_def demo_image_def)
  have h2: "eyeSockets demo_scene = JArr [point 0.35 0.42, point 0.65 0.42]"
    by (simp add: demo_scene_def)
  have l: "locked demo_scene = JBool True"
    by (simp add: demo_scene_def)
  show ?thesis
    using h1 h2 saved_entry_shape [OF h1 h2, of demo_now 1 empty_db]
    by (simp add: demo_entry_def demo_now_def l)
qed

text \<open>
  C9 as stated fails: the entry written for slot 1 of the README scene has no field
  named \<^verbatim>\<open>points\<close>; its point list is the field \<^verbatim>\<open>eyeSockets\<close>.
\<close>

theorem saved_entry_has_no_points_field:
  "saveSlot True True demo_now 1 demo_scene empty_db = Inr (saved_scene, saved_db) \<and>
   member (profiles saved_scene) ''1'' = demo_entry \<and>
   saved_db PROFILE_STORE (JStr ''allProfiles'') = Some (JObj [(''1'', demo_entry)]) \<and>
   member demo_entry ''points'' = JUndefined \<and>
   member demo_entry ''eyeSockets'' = JArr [point 0.35 0.42, point 0.65 0.42]"
  using demo_save
  by (simp add: saved_scene_def saved_db_def flash_def demo_entry_def member_def)

subsection \<open>Saving, then loading\<close>

text \<open>
  C2. For a scene with an image, a point list and a lock flag, and any slot number,
  \<^verbatim>\<open>saveSlot\<close> (both writes succeeding) followed by \<^verbatim>\<open>loadSlot\<close> of the same slot
  restores the saved scene: the image, the point list and the lock flag are the saved
  ones and the active slot is the slot. The editing state may have changed in between
  (a new upload, other points): only the registry the save left is needed.
\<close>

theorem save_then_load:
  assumes "truthy (imageData st)" and "eyeSockets st = JArr pts"
    and "truthy (locked st) \<or> locked st = JBool False"
  shows "\<exists>st1 d1. saveSlot True True now slot st d = Inr (st1, d1) \<and>
           (\<forall>st2. profiles st2 = profiles st1 \<longrightarrow>
              (\<exists>st3. loadSlot True slot st2 d1 = Inr (st3, d1) \<and>
                 imageData st3 = imageData st \<and> eyeSockets st3 = eyeSockets st \<and>
                 locked st3 = locked st \<and> activeSlot st3 = Some slot))"
proof -
  let ?prof = "make_profile slot pts (locked st) now"
  let ?upd = "JObj (obj_set (string_of_nat slot) ?prof (spread_obj (profiles st)))"
  let ?st1 = "flash (''Scene saved to slot '' @ string_of_nat slot)
                (st\<lparr>profiles := ?upd, activeSlot := Some slot\<rparr>)"
  let ?d1 = "d(IMG_STORE := (d IMG_STORE)(JStr (img_key slot) \<mapsto> imageData st),
              PROFILE_STORE := (d PROFILE_STORE)(JStr ''allProfiles'' \<mapsto> ?upd))"
  have save: "saveSlot True True now slot st d = Inr (?st1, ?d1)"
    using assms(1,2) by (simp add: saveSlot_success)
  have load: "\<exists>st3. loadSlot True slot st2 ?d1 = Inr (st3, ?d1) \<and>
                 imageData st3 = imageData st \<and> eyeSockets st3 = eyeSockets st \<and>
                 locked st3 = locked st \<and> activeSlot st3 = Some slot"
    if "profiles st2 = profiles ?st1" for st2
  proof -
    have p: "profiles st2 = ?upd"
      using that by (simp add: flash_def)
    have lk: "js_or (locked st) (JBool False) = locked st"
      using assms(3) by (auto simp: js_or_def)
    show ?thesis
      using assms(1,2) lk
      by (simp add: loadSlot_obj [OF p] map_of_obj_set_same make_profile_def member_def
          dbGet_def js_or_def flash_def)
  qed
  show ?thesis
    using save load by blast
qed

theorem save_then_load_witness:
  "truthy (imageData demo_scene) \<and>
   eyeSockets demo_scene = JArr [point 0.35 0.42, point 0.65 0.42] \<and>
   (truthy (locked demo_scene) \<or> locked demo_scene = JBool False) \<and>
   saveSlot True True demo_now 1 demo_scene empty_db = Inr (saved_scene, saved_db) \<and>
   profiles other_scene = profiles saved_scene \<and>
   eyeSockets other_scene = JArr [] \<and>
   (\<exists>st3. loadSlot True 1 other_scene saved_db = Inr (st3, saved_db) \<and>
      imageData st3 = demo_image \<and>
      eyeSockets st3 = JArr [point 0.35 0.42, point 0.65 0.42] \<and>
      locked st3 = JBool True \<and> activeSlot st3 = Some 1)"
proof -
  have h1: "truthy (imageData demo_scene)"
    by (simp add: demo_scene_def demo_image_def)
  have h2: "eyeSockets demo_scene = JArr [point 0.35 0.42, point 0.65 0.42]"
    by (simp add: demo_scene_def)
  have h3: "truthy (locked demo_scene) \<or> locked demo_scene = JBool False"
    by (simp add: demo_scene_def)
  have h4: "profiles other_scene = profiles saved_scene"
    by (simp add: other_scene_def handleFileChange_def)
  have h5: "eyeSockets other_scene = JArr []"
    by (simp add: other_scene_def handleFileChange_def)
  have v: "imageData demo_scene = demo_image" "locked demo_scene = JBool True"
    by (simp_all add: demo_scene_def)
  from save_then_load [OF h1 h2 h3, of demo_now 1 empty_db] demo_save
  have "\<forall>st2. profiles st2 = profiles saved_scene \<longrightarrow>
          (\<exists>st3. loadSlot True 1 st2 saved_db = Inr (st3, saved_db) \<and>
             imageData st3 = imageData demo_scene \<and> eyeSockets st3 = eyeSockets demo_scene \<and>
             locked st3 = locked demo_scene \<and> activeSlot st3 = Some 1)"
    by simp
  with h4 have "\<exists>st3. loadSlot True 1 other_scene saved_db = Inr (st3, saved_db) \<and>
      imageData st3 = demo_image \<and>
      eyeSockets st3 = JArr [point 0.35 0.42, point 0.65 0.42] \<and>
      locked st3 = JBool True \<and> activeSlot st3 = Some 1"
    by (simp add: h2 v)
  then show ?thesis
    using h1 h2 h3 h4 h5 demo_save by blast
qed

subsection \<open>Loading\<close>

text \<open>
  C5, amended. With an image store that holds only non-empty payloads (all that a save
  ever writes), \<^verbatim>\<open>loadSlot\<close> on a registry that is not null returns normally and
  \<^item> reports ``Slot n is empty'' exactly when the registry has no (truthy) entry for
    the slot;
  \<^item> reports ``Image missing for slot n'' exactly when the registry has an entry for the
    slot, the entry's \<^verbatim>\<open>imageKey\<close> is a valid store key, the store read succeeds and
    the image store holds nothing under that key;
  \<^item> reports ``Load failed'' exactly when the registry has an entry for the slot and the
    entry's \<^verbatim>\<open>imageKey\<close> is missing or not a valid store key, or the store read fails;
  \<^item> in each of these three cases changes nothing but the status message: image, points,
    lock flag and active slot are as before.

  On a null registry the read of the slot throws, and nothing changes.
\<close>

theorem loadSlot_error_cases:
  assumes "\<forall>k v. d IMG_STORE k = Some v \<longrightarrow> truthy v"
  shows
    "(profiles st = JNull \<or> profiles st = JUndefined \<longrightarrow>
        loadSlot ok slot st d = Inl TypeError) \<and>
     (profiles st \<noteq> JNull \<and> profiles st \<noteq> JUndefined \<longrightarrow>
        (\<exists>st'. loadSlot ok slot st d = Inr (st', d) \<and>
           (statusMsg st' = ''Slot '' @ string_of_nat slot @ '' is empty''
              \<longleftrightarrow> \<not> truthy (member (profiles st) (string_of_nat slot))) \<and>
           (statusMsg st' = ''Image missing for slot '' @ string_of_nat slot
              \<longleftrightarrow> truthy (member (profiles st) (string_of_nat slot)) \<and> ok \<and>
                  valid_key (member (member (profiles st) (string_of_nat slot)) ''imageKey'') \<and>
                  d IMG_STORE (member (member (profiles st) (string_of_nat slot)) ''imageKey'')
                    = None) \<and>
           (statusMsg st' = ''Load failed''
              \<longleftrightarrow> truthy (member (profiles st) (string_of_nat slot)) \<and>
                  \<not> (ok \<and> valid_key
                             (member (member (profiles st) (string_of_nat slot)) ''imageKey''))) \<and>
           (statusMsg st' = ''Slot '' @ string_of_nat slot @ '' is empty'' \<or>
            statusMsg st' = ''Image missing for slot '' @ string_of_nat slot \<or>
            statusMsg st' = ''Load failed''
              \<longrightarrow> st' = st\<lparr>statusMsg := statusMsg st'\<rparr>)))"
proof (intro conjI impI)
  assume "profiles st = JNull \<or> profiles st = JUndefined"
  then show "loadSlot ok slot st d = Inl TypeError"
    by (auto simp: loadSlot_def)
next
  let ?key = "string_of_nat slot"
  let ?profile = "member (profiles st) ?key"
  let ?ik = "member ?profile ''imageKey''"
  let ?empty = "''Slot '' @ ?key @ '' is empty''"
  let ?missing = "''Image missing for slot '' @ ?key"
  let ?goal = "\<lambda>st'. loadSlot ok slot st d = Inr (st', d) \<and>
           (statusMsg st' = ?empty \<longleftrightarrow> \<not> truthy ?profile) \<and>
           (statusMsg st' = ?missing
              \<longleftrightarrow> truthy ?profile \<and> ok \<and> valid_key ?ik \<and> d IMG_STORE ?ik = None) \<and>
           (statusMsg st' = ''Load failed'' \<longleftrightarrow> truthy ?profile \<and> \<not> (ok \<and> valid_key ?ik)) \<and>
           (statusMsg st' = ?empty \<or> statusMsg st' = ?missing \<or> statusMsg st' = ''Load failed''
              \<longrightarrow> st' = st\<lparr>statusMsg := statusMsg st'\<rparr>)"
  assume "profiles st \<noteq> JNull \<and> profiles st \<noteq> JUndefined"
  then have gm: "get_member (profiles st) ?key = Inr ?profile"
    by (simp add: get_member_not_null)
  consider (empty) "\<not> truthy ?profile"
    | (bad_key) "truthy ?profile" "\<not> valid_key ?ik"
    | (bad_read) "truthy ?profile" "valid_key ?ik" "\<not> ok"
    | (missing) "truthy ?profile" "ok" "valid_key ?ik" "d IMG_STORE ?ik = None"
    | (loaded) img where "truthy ?profile" "ok" "valid_key ?ik" "d IMG_STORE ?ik = Some img"
    by (cases "d IMG_STORE ?ik") auto
  then show "\<exists>st'. ?goal st'"
  proof cases
    case empty
    then have "?goal (flash ?empty st)"
      by (simp add: loadSlot_def gm flash_def)
    then show ?thesis
      by (rule exI [where x = "flash ?empty st"])
  next
    case bad_key
    then have "?goal (flash ''Load failed'' st)"
      by (simp add: loadSlot_def gm dbGet_def flash_def)
    then show ?thesis
      by (rule exI [where x = "flash ''Load failed'' st"])
  next
    case bad_read
    then have "?goal (flash ''Load failed'' st)"
      by (simp add: loadSlot_def gm dbGet_def flash_def)
    then show ?thesis
      by (rule exI [where x = "flash ''Load failed'' st"])
  next
    case missing
    then have "?goal (flash ?missing st)"
      by (simp add: loadSlot_def gm dbGet_def flash_def)
    then show ?thesis
      by (rule exI [where x = "flash ?missing st"])
  next
    case loaded
    with assms have "truthy img"
      by blast
    let ?st' = "flash (''Loaded slot '' @ ?key)
                (st\<lparr>imageData := img,
                    eyeSockets := js_or (member ?profile ''eyeSockets'') (JArr []),
                    locked := js_or (member ?profile ''locked'') (JBool False),
                    activeSlot := Some slot\<rparr>)"
    from loaded \<open>truthy img\<close> have "?goal ?st'"
      by (simp add: loadSlot_def gm dbGet_def flash_def)
    then show ?thesis
      by (rule exI [where x = ?st'])
  qed
qed

theorem loadSlot_error_cases_witness:
  "\<not> (\<exists>k v. empty_db IMG_STORE k = Some v \<and> \<not> truthy v) \<and>
   profiles dangling_scene \<noteq> JNull \<and> profiles dangling_scene \<noteq> JUndefined \<and>
   loadSlot True 2 dangling_scene empty_db
     = Inr (dangling_scene\<lparr>statusMsg := ''Image missing for slot 2''\<rparr>, empty_db) \<and>
   profiles keyless_scene \<noteq> JNull \<and> profiles keyless_scene \<noteq> JUndefined \<and>
   loadSlot True 3 keyless_scene empty_db
     = Inr (keyless_scene\<lparr>statusMsg := ''Load failed''\<rparr>, empty_db) \<and>
   loadSlot True 1 (fresh_scene\<lparr>profiles := JNull\<rparr>) empty_db = Inl TypeError"
proof -
  have h: "\<forall>k v. empty_db IMG_STORE k = Some v \<longrightarrow> truthy v"
    by (simp add: empty_db_def)
  have d: "profiles dangling_scene \<noteq> JNull \<and> profiles dangling_scene \<noteq> JUndefined"
    "member (profiles dangling_scene) ''2'' = demo_entry"
    by (simp_all add: dangling_scene_def member_def)
  have e: "truthy demo_entry" "valid_key (member demo_entry ''imageKey'')"
    "empty_db IMG_STORE (member demo_entry ''imageKey'') = None"
    by (simp_all add: demo_entry_def member_def empty_db_def)
  have k: "profiles keyless_scene \<noteq> JNull \<and> profiles keyless_scene \<noteq> JUndefined"
    "member (profiles keyless_scene) ''3'' = JObj [(''slot'', JNum 3)]"
    by (simp_all add: keyless_scene_def keyless_doc_def importProfiles_def dbPut_def
        flash_def member_def)
  have l: "\<not> valid_key (member (JObj [(''slot'', JNum 3)]) ''imageKey'')"
    by (simp add: member_def)
  from loadSlot_error_cases [where d = empty_db and st = dangling_scene and slot = 2 and ok = True, OF h] d e
  obtain st1 where
    "loadSlot True 2 dangling_scene empty_db = Inr (st1, empty_db)"
    "statusMsg st1 = ''Image missing for slot 2''"
    "st1 = dangling_scene\<lparr>statusMsg := statusMsg st1\<rparr>"
    by auto
  then have a: "loadSlot True 2 dangling_scene empty_db
     = Inr (dangling_scene\<lparr>statusMsg := ''Image missing for slot 2''\<rparr>, empty_db)"
    by metis
  from loadSlot_error_cases [where d = empty_db and st = keyless_scene and slot = 3 and ok = True, OF h] k l
  obtain st2 where
    "loadSlot True 3 keyless_scene empty_db = Inr (st2, empty_db)"
    "statusMsg st2 = ''Load failed''"
    "st2 = keyless_scene\<lparr>statusMsg := statusMsg st2\<rparr>"
    by auto
  then have b: "loadSlot True 3 keyless_scene empty_db
     = Inr (keyless_scene\<lparr>statusMsg := ''Load failed''\<rparr>, empty_db)"
    by metis
  have c: "loadSlot True 1 (fresh_scene\<lparr>profiles := JNull\<rparr>) empty_db = Inl TypeError"
    using loadSlot_error_cases
            [where d = empty_db and st = "fresh_scene\<lparr>profiles := JNull\<rparr>" and slot = 1
               and ok = True, OF h]
    by simp
  show ?thesis
    using h d(1) k(1) a b c by blast
qed

text \<open>
  C5 as stated fails: after the import of \<^verbatim>\<open>{"3": {"slot": 3}}\<close> the registry has a
  profile for slot 3 and the image store has no image at all, yet \<^verbatim>\<open>loadSlot(3)\<close>
  reports ``Load failed'', not ``Image missing for slot 3''.
\<close>

theorem loadSlot_keyless_profile_load_failed:
  "member (profiles keyless_scene) ''3'' = JObj [(''slot'', JNum 3)] \<and>
   keyless_db IMG_STORE = empty_db IMG_STORE \<and>
   keyless_db IMG_STORE (member (member (profiles keyless_scene) ''3'') ''imageKey'') = None \<and>
   loadSlot True 3 keyless_scene keyless_db
     = Inr (flash ''Load failed'' keyless_scene, keyless_db)"
  by (simp add: keyless_scene_def keyless_db_def keyless_doc_def importProfiles_def dbPut_def
      loadSlot_def dbGet_def member_def flash_def empty_db_def)

text \<open>
  C10. When the registry holds a profile object for the slot and the image store holds
  a non-empty image under its \<^verbatim>\<open>imageKey\<close>, \<^verbatim>\<open>loadSlot\<close> returns normally with
  ``Loaded slot n''; a point list that is missing or null in the profile is loaded as
  the empty list, and a lock flag that is missing or null as \<^verbatim>\<open>false\<close>.
\<close>

theorem loadSlot_defaults:
  assumes "profiles st = JObj kvs"
    and "map_of kvs (string_of_nat slot) = Some (JObj fs)"
    and "map_of fs ''imageKey'' = Some (JStr ik)"
    and "d IMG_STORE (JStr ik) = Some img" and "truthy img"
  shows "\<exists>st'. loadSlot True slot st d = Inr (st', d) \<and>
           statusMsg st' = ''Loaded slot '' @ string_of_nat slot \<and>
           imageData st' = img \<and> activeSlot st' = Some slot \<and>
           (map_of fs ''eyeSockets'' = None \<or> map_of fs ''eyeSockets'' = Some JNull
              \<longrightarrow> eyeSockets st' = JArr []) \<and>
           (map_of fs ''locked'' = None \<or> map_of fs ''locked'' = Some JNull
              \<longrightarrow> locked st' = JBool False)"
  using assms
  by (auto simp: loadSlot_obj [OF assms(1)] member_def dbGet_def js_or_def flash_def)

theorem loadSlot_defaults_witness:
  "\<exists>st'. loadSlot True 4 sparse_scene demo_db = Inr (st', demo_db) \<and>
         statusMsg st' = ''Loaded slot 4'' \<and> imageData st' = demo_image \<and>
         activeSlot st' = Some 4 \<and> eyeSockets st' = JArr [] \<and> locked st' = JBool False"
proof -
  let ?fs = "[(''slot'', JNum 4), (''imageKey'', JStr ''img_slot_4''), (''locked'', JNull)]"
  have h1: "profiles sparse_scene = JObj [(''4'', JObj ?fs)]"
    by (simp add: sparse_scene_def)
  have h2: "map_of [(''4'', JObj ?fs)] (string_of_nat 4) = Some (JObj ?fs)"
    by simp
  have h3: "map_of ?fs ''imageKey'' = Some (JStr ''img_slot_4'')"
    by simp
  have h4: "demo_db IMG_STORE (JStr ''img_slot_4'') = Some demo_image"
    by (simp add: demo_db_def)
  have h5: "truthy demo_image"
    by (simp add: demo_image_def)
  show ?thesis
    using loadSlot_defaults
            [where st = sparse_scene and kvs = "[(''4'', JObj ?fs)]" and slot = 4 and fs = ?fs
               and ik = "''img_slot_4''" and d = demo_db and img = demo_image,
             OF h1 h2 h3 h4 h5]
    by simp
qed

subsection \<open>The lock\<close>

text \<open>
  C8, amended. While the scene is locked, a click on the portrait, a mouse-down on a
  marker followed (no drag being in progress) by a mouse move, and a Delete or Backspace
  key press each return normally and leave the whole state as it was: points and image
  are unchanged, and so is the status message, so nothing is reported.
\<close>

theorem locked_scene_frame:
  assumes "truthy (locked st)"
  shows "handleImageClick e rect st = Inr st \<and>
         handleSocketMouseDown idx st = st \<and>
         (draggingIdx st = None \<longrightarrow>
            window_mousemove me rect (handleSocketMouseDown idx st) = Inr st) \<and>
         ((code ev = ''Backspace'' \<or> code ev = ''Delete'') \<and> \<not> slot_key (key ev) \<longrightarrow>
            handleKeyDown okImg okReg okGet now ev st d = Inr (st, d))"
  using assms
  by (auto simp: handleImageClick_def handleSocketMouseDown_def window_mousemove_def
      handleKeyDown_def)

theorem locked_scene_frame_witness:
  "truthy (locked (toggleLocked fresh_scene)) \<and>
   handleImageClick edge_click demo_rect (toggleLocked fresh_scene)
     = Inr (toggleLocked fresh_scene) \<and>
   handleSocketMouseDown 0 (toggleLocked fresh_scene) = toggleLocked fresh_scene \<and>
   window_mousemove edge_click demo_rect (handleSocketMouseDown 0 (toggleLocked fresh_scene))
     = Inr (toggleLocked fresh_scene) \<and>
   handleKeyDown True True True demo_now delete_key (toggleLocked fresh_scene) empty_db
     = Inr (toggleLocked fresh_scene, empty_db)"
proof -
  have h: "truthy (locked (toggleLocked fresh_scene))"
    by (simp add: toggleLocked_def fresh_scene_def handleFileChange_def initial_state_def)
  have n: "draggingIdx (toggleLocked fresh_scene) = None"
    by (simp add: toggleLocked_def fresh_scene_def handleFileChange_def initial_state_def)
  have k: "(code delete_key = ''Backspace'' \<or> code delete_key = ''Delete'') \<and>
           \<not> slot_key (key delete_key)"
    by (simp add: delete_key_def slot_key_def)
  show ?thesis
    using h n k
      locked_scene_frame [OF h, of edge_click demo_rect 0 edge_click delete_key
                                   True True True demo_now empty_db]
    by blast
qed

text \<open>
  C8 as stated fails in its last part: on the locked README scene the click, the
  mouse-down, the mouse move and the Delete key return the very state they were given,
  with its empty status message; no failure is reported.
\<close>

theorem locked_edits_are_silent:
  "handleImageClick edge_click demo_rect demo_scene = Inr demo_scene \<and>
   handleSocketMouseDown 0 demo_scene = demo_scene \<and>
   window_mousemove edge_click demo_rect demo_scene = Inr demo_scene \<and>
   handleKeyDown True True True demo_now delete_key hovered_scene empty_db
     = Inr (hovered_scene, empty_db) \<and>
   statusMsg demo_scene = [] \<and> statusMsg hovered_scene = []"
  by (simp add: handleImageClick_def handleSocketMouseDown_def window_mousemove_def
      handleKeyDown_def demo_scene_def hovered_scene_def delete_key_def slot_key_def)

subsection \<open>Import\<close>

text \<open>
  C3, amended. \<^verbatim>\<open>importProfiles\<close> reports ``Invalid profile file'' and leaves the
  stored and the in-memory registry as they were when the file's text is not JSON, or
  when the store write fails. A text that parses as JSON is not checked for its shape:
  whatever value it denotes replaces the registry, in the store and in memory. So the
  import is all-or-nothing, but the only malformed documents it rejects are those that
  are not JSON.
\<close>

theorem importProfiles_all_or_nothing:
  "importProfiles ok BadJson st d = (flash ''Invalid profile file'' st, d) \<and>
   importProfiles False (Json doc) st d = (flash ''Invalid profile file'' st, d) \<and>
   importProfiles True (Json doc) st d =
     (flash ''Profiles imported'' (st\<lparr>profiles := doc\<rparr>),
      d(PROFILE_STORE := (d PROFILE_STORE)(JStr ''allProfiles'' \<mapsto> doc)))"
  by (simp add: importProfiles_def dbPut_def)

theorem importProfiles_all_or_nothing_witness:
  "importProfiles True BadJson demo_scene empty_db
     = (flash ''Invalid profile file'' demo_scene, empty_db)"
  using importProfiles_all_or_nothing [of True demo_scene empty_db] by simp

text \<open>
  C3 as stated fails: a document whose only key is the out-of-range slot 7, holding a
  number instead of a profile, is imported and replaces the registry.
\<close>

theorem importProfiles_accepts_any_json:
  "importProfiles True (Json (JObj [(''7'', JNum 42)])) demo_scene empty_db
     = (flash ''Profiles imported'' (demo_scene\<lparr>profiles := JObj [(''7'', JNum 42)]\<rparr>),
        empty_db(PROFILE_STORE := (empty_db PROFILE_STORE)(JStr ''allProfiles'' \<mapsto>
                                    JObj [(''7'', JNum 42)]))) \<and>
   \<not> registry_shaped (JObj [(''7'', JNum 42)])"
  by (simp add: importProfiles_def dbPut_def registry_shaped_def)

end
